theory Spec2Isabelle
  imports Main
begin

section \<open>The sign-out coordinator of the session manager tab\<close>

text \<open>
  The development embeds \<^verbatim>\<open>useSignOut\<close> of
  \<^verbatim>\<open>src/components/views/settings/tabs/user/SessionManagerTab.tsx\<close>.
  The hook owns one piece of React state, the list \<^verbatim>\<open>signingOutDeviceIds\<close>, and one
  asynchronous operation, \<^verbatim>\<open>onSignOutOtherDevices\<close>, which talks to four collaborators
  that live outside the file: the question dialog, the OIDC logout dialog, the
  interactive-auth deletion API and the callback the caller supplies.

  An asynchronous function is modelled by what it does and how its promise ends: the list
  of effects it performs, in program order, and the outcome of the promise it returns.
  The collaborators are parameters: each one is given by the outcome of the promise it
  hands back, so every theorem quantifies over what they do.
\<close>

subsection \<open>Promises, effects and the collaborators\<close>

type_synonym device_id = string

text \<open>
  How a promise ends: it resolves with a value, it rejects (an \<^verbatim>\<open>await\<close> on it throws),
  or it stays pending for ever (a dialog nobody closes, a request nobody answers).
\<close>

datatype 'a promise = Resolves 'a | Rejects | NeverSettles

text \<open>
  The two functional updates the hook passes to \<^verbatim>\<open>setSigningOutDeviceIds\<close>:
  line 114 appends the requested identifiers, lines 136 to 138 filter them out.
\<close>

datatype updater = Append "device_id list" | Remove "device_id list"

text \<open>The effects of the operation that the outside can see, one constructor per call.\<close>

datatype action =
    LoggerWarn string
  | LoggerError string
  | CreateQuestionDialog nat
  | CreateOidcLogoutDialog "device_id option" string
  | DeleteDevicesWithInteractiveAuth "device_id list"
  | OnSignoutResolvedCallback
  | SetSigningOutDeviceIds updater

text \<open>
  What the deletion API does with one call (lines 124 to 128): \<open>returned\<close> is the outcome of
  the promise of \<^verbatim>\<open>deleteDevicesWithInteractiveAuth\<close> itself, \<open>reported\<close> is the flag its
  completion callback receives first (\<open>None\<close> when the callback is never invoked). The
  callback resolves the deferred, and a deferred keeps its first resolution.
\<close>

record deletion =
  returned :: "unit promise"
  reported :: "bool option"

text \<open>
  The collaborators. A dialog's \<^verbatim>\<open>finished\<close> promise resolves to an array whose first
  element is the answer, or is missing (\<open>None\<close>, the \<^verbatim>\<open>undefined\<close> of the source).
\<close>

record collaborators =
  questionDialog :: "nat \<Rightarrow> bool option promise"
  oidcLogoutDialog :: "device_id option \<Rightarrow> string \<Rightarrow> bool option promise"
  deleteDevices :: "device_id list \<Rightarrow> deletion"
  onSignoutResolvedCallback :: "unit promise"

subsection \<open>Sequencing\<close>

text \<open>
  \<^verbatim>\<open>await p; rest\<close>: the rest runs with the value when the promise resolves; a rejection
  leaves the enclosing block as an exception; a promise that never settles suspends the
  function for good.
\<close>

fun await :: "'e list \<times> 'a promise \<Rightarrow> ('a \<Rightarrow> 'e list \<times> 'b promise) \<Rightarrow> 'e list \<times> 'b promise" where
  "await (t, Resolves v) k = (t @ fst (k v), snd (k v))"
| "await (t, Rejects) k = (t, Rejects)"
| "await (t, NeverSettles) k = (t, NeverSettles)"

text \<open>\<^verbatim>\<open>try { body } catch (error) { handler }\<close>: the handler runs on a rejection only.\<close>

fun catch_error :: "'e list \<times> 'a promise \<Rightarrow> 'e list \<times> 'a promise \<Rightarrow> 'e list \<times> 'a promise" where
  "catch_error (t, Rejects) h = (t @ fst h, snd h)"
| "catch_error (t, Resolves v) h = (t, Resolves v)"
| "catch_error (t, NeverSettles) h = (t, NeverSettles)"

text \<open>JavaScript's \<^verbatim>\<open>!!confirmed\<close> on \<^verbatim>\<open>boolean | undefined\<close>.\<close>

fun truthy :: "bool option \<Rightarrow> bool" where
  "truthy None = False"
| "truthy (Some b) = b"

text \<open>
  The test \<^verbatim>\<open>if (delegatedAuthAccountUrl)\<close> on \<^verbatim>\<open>string | undefined\<close>: the empty string
  is falsy, as \<^verbatim>\<open>undefined\<close> is. The result is the URL when the test succeeds.
\<close>

fun truthyUrl :: "string option \<Rightarrow> string option" where
  "truthyUrl None = None"
| "truthyUrl (Some url) = (if url = [] then None else Some url)"

text \<open>\<^verbatim>\<open>const [deviceId] = deviceIds\<close>: the first element, \<^verbatim>\<open>undefined\<close> on an empty array.\<close>

fun firstDeviceId :: "device_id list \<Rightarrow> device_id option" where
  "firstDeviceId [] = None"
| "firstDeviceId (deviceId # _) = Some deviceId"

subsection \<open>The operation\<close>

text \<open>Lines 41 to 59.\<close>

definition confirmSignOut :: "collaborators \<Rightarrow> nat \<Rightarrow> action list \<times> bool promise" where
  "confirmSignOut env sessionsToSignOutCount =
     await ([CreateQuestionDialog sessionsToSignOutCount], questionDialog env sessionsToSignOutCount)
       (\<lambda>confirmed. ([], Resolves (truthy confirmed)))"

text \<open>Lines 61 to 69.\<close>

definition confirmDelegatedAuthSignOut ::
  "collaborators \<Rightarrow> string \<Rightarrow> device_id option \<Rightarrow> action list \<times> bool promise" where
  "confirmDelegatedAuthSignOut env delegatedAuthAccountUrl deviceId =
     await ([CreateOidcLogoutDialog deviceId delegatedAuthAccountUrl],
            oidcLogoutDialog env deviceId delegatedAuthAccountUrl)
       (\<lambda>confirmed. ([], Resolves (truthy confirmed)))"

text \<open>
  Lines 124 to 128: the call of the deletion API, awaited, then the deferred it resolves,
  awaited. The value is what line 128 assigns to \<^verbatim>\<open>success\<close>.
\<close>

definition interactiveAuthBranch :: "collaborators \<Rightarrow> device_id list \<Rightarrow> action list \<times> bool promise" where
  "interactiveAuthBranch env deviceIds =
     await ([DeleteDevicesWithInteractiveAuth deviceIds], returned (deleteDevices env deviceIds))
       (\<lambda>_. case reported (deleteDevices env deviceIds) of
               Some success \<Rightarrow> ([], Resolves success)
             | None \<Rightarrow> ([], NeverSettles))"

text \<open>
  Lines 117 to 122: the inner \<^verbatim>\<open>try\<close>. A rejection is logged and \<^verbatim>\<open>success\<close> keeps
  its initial \<^verbatim>\<open>false\<close>.
\<close>

definition delegatedAuthBranch ::
  "collaborators \<Rightarrow> string \<Rightarrow> device_id list \<Rightarrow> action list \<times> bool promise" where
  "delegatedAuthBranch env url deviceIds =
     catch_error (confirmDelegatedAuthSignOut env url (firstDeviceId deviceIds))
       ([LoggerError ''Error deleting OIDC-aware sessions''], Resolves False)"

text \<open>Lines 114 to 129, the body of the outer \<^verbatim>\<open>try\<close>; the value is \<^verbatim>\<open>success\<close>.\<close>

definition tryBlock ::
  "collaborators \<Rightarrow> string option \<Rightarrow> device_id list \<Rightarrow> action list \<times> bool promise" where
  "tryBlock env delegatedAuthAccountUrl deviceIds =
     await ([SetSigningOutDeviceIds (Append deviceIds)], Resolves ())
       (\<lambda>_. case truthyUrl delegatedAuthAccountUrl of
               Some url \<Rightarrow> delegatedAuthBranch env url deviceIds
             | None \<Rightarrow> interactiveAuthBranch env deviceIds)"

text \<open>
  Lines 132 to 139, the \<^verbatim>\<open>finally\<close> block. The callback is awaited inside it, before
  the clean-up: when the callback rejects, the exception leaves the block and the
  function, and line 136 is not reached.
\<close>

definition finallyBlock :: "collaborators \<Rightarrow> device_id list \<Rightarrow> bool \<Rightarrow> action list \<times> unit promise" where
  "finallyBlock env deviceIds success =
     await (if success then ([OnSignoutResolvedCallback], onSignoutResolvedCallback env)
            else ([], Resolves ()))
       (\<lambda>_. ([SetSigningOutDeviceIds (Remove deviceIds)], Resolves ()))"

text \<open>
  Lines 112 to 139. A rejection of the body is logged by the outer \<^verbatim>\<open>catch\<close> (line 131)
  with \<^verbatim>\<open>success\<close> still \<^verbatim>\<open>false\<close>; the \<^verbatim>\<open>finally\<close> block runs once the body has
  settled, and never when the body stays suspended.
\<close>

definition signOutAndCleanUp ::
  "collaborators \<Rightarrow> string option \<Rightarrow> device_id list \<Rightarrow> action list \<times> unit promise" where
  "signOutAndCleanUp env delegatedAuthAccountUrl deviceIds =
     await (catch_error (tryBlock env delegatedAuthAccountUrl deviceIds)
              ([LoggerError ''Error deleting sessions''], Resolves False))
       (\<lambda>success. finallyBlock env deviceIds success)"

text \<open>Lines 92 to 140.\<close>

definition onSignOutOtherDevices ::
  "collaborators \<Rightarrow> string option \<Rightarrow> device_id list \<Rightarrow> action list \<times> unit promise" where
  "onSignOutOtherDevices env delegatedAuthAccountUrl deviceIds =
     (if length deviceIds = 0 then ([], Resolves ())
      else if truthyUrl delegatedAuthAccountUrl \<noteq> None \<and> length deviceIds \<noteq> 1 then
        ([LoggerWarn ''Unexpectedly tried to sign out multiple OIDC-aware devices.''], Resolves ())
      else if truthyUrl delegatedAuthAccountUrl = None then
        await (confirmSignOut env (length deviceIds))
          (\<lambda>userConfirmedSignout.
             if \<not> userConfirmedSignout then ([], Resolves ())
             else signOutAndCleanUp env delegatedAuthAccountUrl deviceIds)
      else signOutAndCleanUp env delegatedAuthAccountUrl deviceIds)"

subsection \<open>The in-flight list\<close>

text \<open>
  React applies the queued functional updates in the order of the calls, each to the
  state the previous one left. Line 80 starts the list empty.
\<close>

fun applyUpdater :: "updater \<Rightarrow> device_id list \<Rightarrow> device_id list" where
  "applyUpdater (Append deviceIds) signingOutDeviceIds = signingOutDeviceIds @ deviceIds"
| "applyUpdater (Remove deviceIds) signingOutDeviceIds =
     filter (\<lambda>deviceId. deviceId \<notin> set deviceIds) signingOutDeviceIds"

fun applyAction :: "action \<Rightarrow> device_id list \<Rightarrow> device_id list" where
  "applyAction (SetSigningOutDeviceIds u) signingOutDeviceIds = applyUpdater u signingOutDeviceIds"
| "applyAction _ signingOutDeviceIds = signingOutDeviceIds"

definition signingOutAfter :: "action list \<Rightarrow> device_id list \<Rightarrow> device_id list" where
  "signingOutAfter t signingOutDeviceIds = fold applyAction t signingOutDeviceIds"

subsection \<open>The callback the tab supplies\<close>

text \<open>
  Lines 254 to 257: \<^verbatim>\<open>SessionManagerTab\<close> passes this callback to the hook. It awaits the
  refresh of the device list, a collaborator of the tab, and then clears the selection.
\<close>

datatype tab_action = RefreshDevices | SetSelectedDeviceIds "device_id list"

definition tabOnSignoutResolvedCallback :: "unit promise \<Rightarrow> tab_action list \<times> unit promise" where
  "tabOnSignoutResolvedCallback refreshDevices =
     await ([RefreshDevices], refreshDevices) (\<lambda>_. ([SetSelectedDeviceIds []], Resolves ()))"

subsection \<open>Vocabulary of the properties\<close>

text \<open>
  The effects that leave the client: the OIDC logout dialog (it performs the remote
  sign-out), the deletion API, and the callback (it refreshes the device list). The
  question dialog and the logger are local.
\<close>

fun networkInteraction :: "action \<Rightarrow> bool" where
  "networkInteraction (CreateOidcLogoutDialog _ _) = True"
| "networkInteraction (DeleteDevicesWithInteractiveAuth _) = True"
| "networkInteraction OnSignoutResolvedCallback = True"
| "networkInteraction _ = False"

text \<open>
  Two calls of the operation that are outstanding together. JavaScript runs one of them
  at a time and switches at an \<^verbatim>\<open>await\<close>, so a joint run is an interleaving
  (\<^const>\<open>shuffles\<close>) of the two lists of effects, each effect tagged with its call.
\<close>

datatype request = RequestA | RequestB

subsection \<open>Concrete collaborators\<close>

text \<open>Every collaborator succeeds: the user confirms, the deletion is reported done.\<close>

definition cooperative :: collaborators where
  "cooperative =
     \<lparr> questionDialog = (\<lambda>_. Resolves (Some True)),
       oidcLogoutDialog = (\<lambda>_ _. Resolves (Some True)),
       deleteDevices = (\<lambda>_. \<lparr> returned = Resolves (), reported = Some True \<rparr>),
       onSignoutResolvedCallback = Resolves () \<rparr>"

text \<open>As \<^const>\<open>cooperative\<close>, but the promise of the caller's callback rejects.\<close>

definition callbackRejects :: collaborators where
  "callbackRejects = cooperative \<lparr> onSignoutResolvedCallback := Rejects \<rparr>"

text \<open>As \<^const>\<open>cooperative\<close>, but the question dialog's promise rejects.\<close>

definition confirmationRejects :: collaborators where
  "confirmationRejects = cooperative \<lparr> questionDialog := (\<lambda>_. Rejects) \<rparr>"

text \<open>As \<^const>\<open>cooperative\<close>, but the user answers no.\<close>

definition userDeclines :: collaborators where
  "userDeclines = cooperative \<lparr> questionDialog := (\<lambda>_. Resolves (Some False)) \<rparr>"

text \<open>As \<^const>\<open>cooperative\<close>, but the deletion API reports \<^verbatim>\<open>false\<close>.\<close>

definition deletionFails :: collaborators where
  "deletionFails =
     cooperative \<lparr> deleteDevices := (\<lambda>_. \<lparr> returned = Resolves (), reported = Some False \<rparr>) \<rparr>"

text \<open>As \<^const>\<open>cooperative\<close>, but the deletion API and the OIDC logout dialog reject.\<close>

definition deletionRejects :: collaborators where
  "deletionRejects =
     cooperative \<lparr> oidcLogoutDialog := (\<lambda>_ _. Rejects),
                   deleteDevices := (\<lambda>_. \<lparr> returned = Rejects, reported = None \<rparr>) \<rparr>"

subsection \<open>Concrete joint runs\<close>

text \<open>
  Two calls under \<^const>\<open>cooperative\<close> collaborators, without a delegated-auth URL. Both
  ask for confirmation; each then appends its identifiers and calls the deletion API;
  the first call is answered, runs the callback and cleans up while the second still
  waits for its answer. In the first run the calls ask for different devices, in the
  second they share \<^verbatim>\<open>DEV2\<close>.
\<close>

definition disjointSchedule :: "(request \<times> action) list" where
  "disjointSchedule =
     [(RequestA, CreateQuestionDialog 1),
      (RequestB, CreateQuestionDialog 1),
      (RequestA, SetSigningOutDeviceIds (Append [''DEV1''])),
      (RequestA, DeleteDevicesWithInteractiveAuth [''DEV1'']),
      (RequestB, SetSigningOutDeviceIds (Append [''DEV2''])),
      (RequestB, DeleteDevicesWithInteractiveAuth [''DEV2'']),
      (RequestA, OnSignoutResolvedCallback),
      (RequestA, SetSigningOutDeviceIds (Remove [''DEV1''])),
      (RequestB, OnSignoutResolvedCallback),
      (RequestB, SetSigningOutDeviceIds (Remove [''DEV2'']))]"

definition overlappingSchedule :: "(request \<times> action) list" where
  "overlappingSchedule =
     [(RequestA, CreateQuestionDialog 2),
      (RequestB, CreateQuestionDialog 2),
      (RequestA, SetSigningOutDeviceIds (Append [''DEV1'', ''DEV2''])),
      (RequestA, DeleteDevicesWithInteractiveAuth [''DEV1'', ''DEV2'']),
      (RequestB, SetSigningOutDeviceIds (Append [''DEV2'', ''DEV3''])),
      (RequestB, DeleteDevicesWithInteractiveAuth [''DEV2'', ''DEV3'']),
      (RequestA, OnSignoutResolvedCallback),
      (RequestA, SetSigningOutDeviceIds (Remove [''DEV1'', ''DEV2''])),
      (RequestB, OnSignoutResolvedCallback),
      (RequestB, SetSigningOutDeviceIds (Remove [''DEV2'', ''DEV3'']))]"

section \<open>Properties\<close>

subsection \<open>Auxiliary facts\<close>

lemmas signOut_defs =
  onSignOutOtherDevices_def signOutAndCleanUp_def finallyBlock_def tryBlock_def
  delegatedAuthBranch_def interactiveAuthBranch_def confirmDelegatedAuthSignOut_def
  confirmSignOut_def

lemma fst_await:
  "fst (await m k) =
     fst m @ (case snd m of Resolves v \<Rightarrow> fst (k v) | Rejects \<Rightarrow> [] | NeverSettles \<Rightarrow> [])"
  by (cases m; cases "snd m") simp_all

lemma fst_catch_error:
  "fst (catch_error m h) =
     fst m @ (case snd m of Resolves v \<Rightarrow> [] | Rejects \<Rightarrow> fst h | NeverSettles \<Rightarrow> [])"
  by (cases m; cases "snd m") simp_all

lemma signingOutAfter_Nil [simp]: "signingOutAfter [] s = s"
  by (simp add: signingOutAfter_def)

lemma signingOutAfter_Cons [simp]:
  "signingOutAfter (a # t) s = signingOutAfter t (applyAction a s)"
  by (simp add: signingOutAfter_def)

lemma signingOutAfter_append [simp]:
  "signingOutAfter (t @ t') s = signingOutAfter t' (signingOutAfter t s)"
  by (simp add: signingOutAfter_def)

text \<open>The only updates a call queues are the append and the filter of its own identifiers.\<close>

lemma state_actions:
  assumes "SetSigningOutDeviceIds u \<in> set (fst (onSignOutOtherDevices env url ids))"
  shows "u = Append ids \<or> u = Remove ids"
  using assms
  by (cases "questionDialog env (length ids)"; cases "onSignoutResolvedCallback env";
      cases "truthyUrl url"; cases "returned (deleteDevices env ids)";
      cases "reported (deleteDevices env ids)";
      cases "oidcLogoutDialog env (firstDeviceId ids) (the (truthyUrl url))")
     (simp_all add: signOut_defs split: if_splits)

text \<open>When exactly the caller's callback is invoked: the value of \<^verbatim>\<open>success\<close> at line 133.\<close>

lemma callback_invoked_iff:
  "OnSignoutResolvedCallback \<in> set (fst (onSignOutOtherDevices env delegatedAuthAccountUrl deviceIds))
   \<longleftrightarrow> deviceIds \<noteq> []
       \<and> (case truthyUrl delegatedAuthAccountUrl of
            None \<Rightarrow>
              (\<exists>confirmed. questionDialog env (length deviceIds) = Resolves confirmed \<and> truthy confirmed)
              \<and> returned (deleteDevices env deviceIds) = Resolves ()
              \<and> reported (deleteDevices env deviceIds) = Some True
          | Some url \<Rightarrow>
              length deviceIds = 1
              \<and> (\<exists>confirmed. oidcLogoutDialog env (firstDeviceId deviceIds) url = Resolves confirmed
                    \<and> truthy confirmed))"
  by (cases "questionDialog env (length deviceIds)"; cases "onSignoutResolvedCallback env";
      cases "truthyUrl delegatedAuthAccountUrl"; cases "returned (deleteDevices env deviceIds)";
      cases "reported (deleteDevices env deviceIds)";
      cases "oidcLogoutDialog env (firstDeviceId deviceIds) (the (truthyUrl delegatedAuthAccountUrl))")
     (auto simp add: signOut_defs)

text \<open>
  An update that is not a filter naming \<open>d\<close> never lowers the number of copies of \<open>d\<close>
  in the list.
\<close>

lemma count_list_filter_other:
  "d \<notin> set ids \<Longrightarrow> count_list (filter (\<lambda>x. x \<notin> set ids) s) d = count_list s d"
  by (induction s) auto

lemma applyAction_frame:
  assumes "\<forall>ids. a = SetSigningOutDeviceIds (Remove ids) \<longrightarrow> d \<notin> set ids"
  shows "count_list s d \<le> count_list (applyAction a s) d"
proof (cases a)
  case (SetSigningOutDeviceIds u)
  show ?thesis
  proof (cases u)
    case (Append ids)
    with SetSigningOutDeviceIds show ?thesis by simp
  next
    case (Remove ids)
    with SetSigningOutDeviceIds assms have "d \<notin> set ids" by simp
    with SetSigningOutDeviceIds Remove show ?thesis
      by (simp add: count_list_filter_other)
  qed
qed simp_all

lemma signingOutAfter_frame:
  assumes "\<forall>ids. SetSigningOutDeviceIds (Remove ids) \<in> set t \<longrightarrow> d \<notin> set ids"
  shows "count_list s d \<le> count_list (signingOutAfter t s) d"
  using assms
proof (induction t arbitrary: s)
  case Nil
  show ?case by simp
next
  case (Cons a t)
  have "count_list s d \<le> count_list (applyAction a s) d"
    using Cons.prems by (intro applyAction_frame) auto
  also have "\<dots> \<le> count_list (signingOutAfter t (applyAction a s)) d"
    using Cons.prems by (intro Cons.IH) auto
  finally show ?case by simp
qed

lemma append_then_frame:
  assumes "d \<in> set ids"
    and "\<forall>ids'. SetSigningOutDeviceIds (Remove ids') \<in> set t \<longrightarrow> d \<notin> set ids'"
  shows "Suc (count_list s d)
           \<le> count_list (signingOutAfter (SetSigningOutDeviceIds (Append ids) # t) s) d"
proof -
  have "count_list ids d \<noteq> 0"
    using assms(1) by (simp add: count_list_0_iff)
  then have "Suc (count_list s d) \<le> count_list (s @ ids) d" by simp
  also have "\<dots> \<le> count_list (signingOutAfter t (s @ ids)) d"
    using assms(2) by (rule signingOutAfter_frame)
  finally show ?thesis by simp
qed

text \<open>In a joint run of two calls, a filter belongs to one of them and names its identifiers.\<close>

lemma removes_of_schedule:
  assumes sched: "sched \<in> shuffles (map (Pair RequestA) (fst (onSignOutOtherDevices envA urlA idsA)))
                                    (map (Pair RequestB) (fst (onSignOutOtherDevices envB urlB idsB)))"
    and mem: "(r, SetSigningOutDeviceIds (Remove ids)) \<in> set sched"
  shows "(r = RequestA \<and> ids = idsA) \<or> (r = RequestB \<and> ids = idsB)"
proof -
  from sched have "set sched = set (map (Pair RequestA) (fst (onSignOutOtherDevices envA urlA idsA)))
      \<union> set (map (Pair RequestB) (fst (onSignOutOtherDevices envB urlB idsB)))"
    by (rule set_shuffles)
  with mem show ?thesis
    by (auto dest: state_actions)
qed

text \<open>Two appends that name \<open>d\<close>, and no filter: the list holds two copies of \<open>d\<close> at least.\<close>

lemma two_appends:
  assumes "d \<in> set X" and "d \<in> set Y"
    and "\<forall>ids. SetSigningOutDeviceIds (Remove ids) \<notin> set (t1 @ t2 @ t3)"
  shows "2 \<le> count_list (signingOutAfter
            (t1 @ SetSigningOutDeviceIds (Append X) # t2 @ SetSigningOutDeviceIds (Append Y) # t3) s) d"
proof -
  let ?s1 = "signingOutAfter t1 s"
  let ?s2 = "signingOutAfter (SetSigningOutDeviceIds (Append X) # t2) ?s1"
  let ?s3 = "signingOutAfter (SetSigningOutDeviceIds (Append Y) # t3) ?s2"
  have "Suc (count_list ?s1 d) \<le> count_list ?s2 d"
    using assms(1,3) by (intro append_then_frame) auto
  moreover have "Suc (count_list ?s2 d) \<le> count_list ?s3 d"
    using assms(2,3) by (intro append_then_frame) auto
  ultimately have "2 \<le> count_list ?s3 d" by simp
  then show ?thesis by simp
qed

subsection \<open>The claims\<close>

text \<open>
  C1, as amended. A single-device sign-out through interactive auth that succeeds, the
  callback's promise resolving too (no delegated-auth URL, the user confirms, the
  deletion API returns and reports \<^verbatim>\<open>true\<close>, the promise of the caller's callback
  resolves): the call performs exactly five effects. It asks for confirmation, appends
  the identifier to the in-flight list (so the list is the old one followed by the
  identifier), calls the deletion API, invokes the callback once, and filters the
  identifier out once, after which the list holds no copy of it; its promise resolves.
\<close>

theorem successful_single_device_sign_out:
  assumes "truthyUrl delegatedAuthAccountUrl = None"
    and "questionDialog env 1 = Resolves confirmed" and "truthy confirmed"
    and "returned (deleteDevices env [deviceId]) = Resolves ()"
    and "reported (deleteDevices env [deviceId]) = Some True"
    and "onSignoutResolvedCallback env = Resolves ()"
  shows "onSignOutOtherDevices env delegatedAuthAccountUrl [deviceId] =
           ([CreateQuestionDialog 1,
             SetSigningOutDeviceIds (Append [deviceId]),
             DeleteDevicesWithInteractiveAuth [deviceId],
             OnSignoutResolvedCallback,
             SetSigningOutDeviceIds (Remove [deviceId])], Resolves ())
       \<and> signingOutAfter [CreateQuestionDialog 1, SetSigningOutDeviceIds (Append [deviceId])] s
           = s @ [deviceId]
       \<and> deviceId \<notin> set (signingOutAfter (fst (onSignOutOtherDevices env delegatedAuthAccountUrl [deviceId])) s)"
  using assms by (simp add: signOut_defs)

theorem successful_single_device_sign_out_witness:
  "onSignOutOtherDevices cooperative None [''DEV1''] =
     ([CreateQuestionDialog 1,
       SetSigningOutDeviceIds (Append [''DEV1'']),
       DeleteDevicesWithInteractiveAuth [''DEV1''],
       OnSignoutResolvedCallback,
       SetSigningOutDeviceIds (Remove [''DEV1''])], Resolves ())
   \<and> signingOutAfter (fst (onSignOutOtherDevices cooperative None [''DEV1''])) [''DEV1'', ''DEV2'']
       = [''DEV2'']"
proof -
  have no_url: "truthyUrl None = None"
    and confirms: "questionDialog cooperative 1 = Resolves (Some True)" "truthy (Some True)"
    and deleted: "returned (deleteDevices cooperative [''DEV1'']) = Resolves ()"
      "reported (deleteDevices cooperative [''DEV1'']) = Some True"
    and refreshed: "onSignoutResolvedCallback cooperative = Resolves ()"
    by (simp_all add: cooperative_def)
  show ?thesis
    using successful_single_device_sign_out
      [OF no_url confirms deleted refreshed, where s = "[''DEV1'', ''DEV2'']"]
    by simp
qed

text \<open>
  C1 as stated fails when the callback's promise rejects: the user confirmed and the
  deletion API reported \<^verbatim>\<open>true\<close>, the callback is invoked, its rejection leaves the
  \<^verbatim>\<open>finally\<close> block before line 136, and the identifier stays in the in-flight list.
\<close>

theorem rejecting_callback_leaves_device_in_flight:
  "questionDialog callbackRejects 1 = Resolves (Some True)
   \<and> deleteDevices callbackRejects [''DEV1''] = \<lparr> returned = Resolves (), reported = Some True \<rparr>
   \<and> onSignOutOtherDevices callbackRejects None [''DEV1''] =
       ([CreateQuestionDialog 1,
         SetSigningOutDeviceIds (Append [''DEV1'']),
         DeleteDevicesWithInteractiveAuth [''DEV1''],
         OnSignoutResolvedCallback], Rejects)
   \<and> signingOutAfter (fst (onSignOutOtherDevices callbackRejects None [''DEV1''])) [] = [''DEV1'']"
  by (simp add: signOut_defs callbackRejects_def cooperative_def)

text \<open>
  C2, as amended. Whatever the identifiers, the delegated-auth URL, the OIDC logout dialog
  and the deletion API do, the call does not throw to its caller, provided the question
  dialog's promise and the callback's promise do not reject. A rejection of the deletion
  API is caught and logged with the message of line 131, a rejection of the OIDC logout
  dialog with the message of line 121.
\<close>

theorem deletion_errors_are_caught_and_logged:
  assumes "questionDialog env (length deviceIds) \<noteq> Rejects"
    and "onSignoutResolvedCallback env \<noteq> Rejects"
  shows "snd (onSignOutOtherDevices env delegatedAuthAccountUrl deviceIds) \<noteq> Rejects
       \<and> (DeleteDevicesWithInteractiveAuth deviceIds
              \<in> set (fst (onSignOutOtherDevices env delegatedAuthAccountUrl deviceIds))
            \<and> returned (deleteDevices env deviceIds) = Rejects
          \<longrightarrow> LoggerError ''Error deleting sessions''
              \<in> set (fst (onSignOutOtherDevices env delegatedAuthAccountUrl deviceIds)))
       \<and> (\<forall>deviceId url.
            CreateOidcLogoutDialog deviceId url
              \<in> set (fst (onSignOutOtherDevices env delegatedAuthAccountUrl deviceIds))
            \<and> oidcLogoutDialog env deviceId url = Rejects
          \<longrightarrow> LoggerError ''Error deleting OIDC-aware sessions''
              \<in> set (fst (onSignOutOtherDevices env delegatedAuthAccountUrl deviceIds)))"
  using assms
  by (cases "questionDialog env (length deviceIds)"; cases "onSignoutResolvedCallback env";
      cases "truthyUrl delegatedAuthAccountUrl"; cases "returned (deleteDevices env deviceIds)";
      cases "reported (deleteDevices env deviceIds)";
      cases "oidcLogoutDialog env (firstDeviceId deviceIds) (the (truthyUrl delegatedAuthAccountUrl))")
     (simp_all add: signOut_defs)

theorem deletion_errors_are_caught_and_logged_witness:
  "snd (onSignOutOtherDevices deletionRejects None [''DEV1'', ''DEV2'']) = Resolves ()
   \<and> LoggerError ''Error deleting sessions''
       \<in> set (fst (onSignOutOtherDevices deletionRejects None [''DEV1'', ''DEV2'']))
   \<and> snd (onSignOutOtherDevices deletionRejects (Some ''https://account.example'') [''DEV1''])
       = Resolves ()
   \<and> LoggerError ''Error deleting OIDC-aware sessions''
       \<in> set (fst (onSignOutOtherDevices deletionRejects (Some ''https://account.example'') [''DEV1'']))"
proof -
  have confirms: "questionDialog deletionRejects (length [''DEV1'', ''DEV2'']) \<noteq> Rejects"
      "questionDialog deletionRejects (length [''DEV1'']) \<noteq> Rejects"
    and refreshes: "onSignoutResolvedCallback deletionRejects \<noteq> Rejects"
    by (simp_all add: deletionRejects_def cooperative_def)
  have api: "DeleteDevicesWithInteractiveAuth [''DEV1'', ''DEV2'']
        \<in> set (fst (onSignOutOtherDevices deletionRejects None [''DEV1'', ''DEV2'']))"
      "returned (deleteDevices deletionRejects [''DEV1'', ''DEV2'']) = Rejects"
    and dialog: "CreateOidcLogoutDialog (Some ''DEV1'') ''https://account.example''
        \<in> set (fst (onSignOutOtherDevices deletionRejects (Some ''https://account.example'') [''DEV1'']))"
      "oidcLogoutDialog deletionRejects (Some ''DEV1'') ''https://account.example'' = Rejects"
    by (simp_all add: signOut_defs deletionRejects_def cooperative_def)
  have never: "snd (onSignOutOtherDevices deletionRejects url ids) \<noteq> Rejects
      \<Longrightarrow> snd (onSignOutOtherDevices deletionRejects url ids) \<noteq> NeverSettles
      \<Longrightarrow> snd (onSignOutOtherDevices deletionRejects url ids) = Resolves ()" for url ids
    by (cases "snd (onSignOutOtherDevices deletionRejects url ids)") simp_all
  have settles: "snd (onSignOutOtherDevices deletionRejects None [''DEV1'', ''DEV2'']) \<noteq> NeverSettles"
      "snd (onSignOutOtherDevices deletionRejects (Some ''https://account.example'') [''DEV1''])
         \<noteq> NeverSettles"
    by (simp_all add: signOut_defs deletionRejects_def cooperative_def)
  show ?thesis
    using deletion_errors_are_caught_and_logged
        [OF confirms(1) refreshes, where delegatedAuthAccountUrl = None]
      deletion_errors_are_caught_and_logged
        [OF confirms(2) refreshes, where delegatedAuthAccountUrl = "Some ''https://account.example''"]
      api dialog settles never
    by blast
qed

text \<open>
  C2 as stated fails twice. The question dialog is awaited at line 106, before the
  \<^verbatim>\<open>try\<close>: its rejection is the rejection of the call. The callback is awaited at line
  134, inside the \<^verbatim>\<open>finally\<close>: its rejection is the rejection of the call as well.
\<close>

theorem throws_when_confirmation_or_callback_rejects:
  "snd (onSignOutOtherDevices confirmationRejects None [''DEV1'']) = Rejects
   \<and> snd (onSignOutOtherDevices callbackRejects None [''DEV1'']) = Rejects"
  by (simp add: signOut_defs callbackRejects_def confirmationRejects_def cooperative_def)

text \<open>
  C3. A request that fails: either no delegated-auth URL, the user confirms, and the
  deletion API, whose call settles, reports \<^verbatim>\<open>false\<close>; or a delegated-auth URL, one
  identifier, and the OIDC logout dialog throws. Then the caller's callback is not
  invoked, the call returns, its last effect is the filter of the requested identifiers,
  and no requested identifier is left in the in-flight list, whatever the list held.
\<close>

theorem failed_sign_out_drains_in_flight:
  assumes "deviceIds \<noteq> []"
    and "(truthyUrl delegatedAuthAccountUrl = None
          \<and> questionDialog env (length deviceIds) = Resolves confirmed \<and> truthy confirmed
          \<and> returned (deleteDevices env deviceIds) \<noteq> NeverSettles
          \<and> reported (deleteDevices env deviceIds) = Some False)
       \<or> (truthyUrl delegatedAuthAccountUrl = Some url \<and> length deviceIds = 1
          \<and> oidcLogoutDialog env (firstDeviceId deviceIds) url = Rejects)"
  shows "OnSignoutResolvedCallback
           \<notin> set (fst (onSignOutOtherDevices env delegatedAuthAccountUrl deviceIds))
       \<and> snd (onSignOutOtherDevices env delegatedAuthAccountUrl deviceIds) = Resolves ()
       \<and> last (fst (onSignOutOtherDevices env delegatedAuthAccountUrl deviceIds))
           = SetSigningOutDeviceIds (Remove deviceIds)
       \<and> set deviceIds
           \<inter> set (signingOutAfter (fst (onSignOutOtherDevices env delegatedAuthAccountUrl deviceIds)) s)
           = {}"
  using assms
  by (cases "returned (deleteDevices env deviceIds)") (auto simp add: signOut_defs)

theorem failed_sign_out_drains_in_flight_witness:
  "onSignOutOtherDevices deletionFails None [''DEV1'', ''DEV2''] =
     ([CreateQuestionDialog 2,
       SetSigningOutDeviceIds (Append [''DEV1'', ''DEV2'']),
       DeleteDevicesWithInteractiveAuth [''DEV1'', ''DEV2''],
       SetSigningOutDeviceIds (Remove [''DEV1'', ''DEV2''])], Resolves ())
   \<and> set [''DEV1'', ''DEV2'']
       \<inter> set (signingOutAfter (fst (onSignOutOtherDevices deletionFails None [''DEV1'', ''DEV2'']))
                [''DEV9'']) = {}
   \<and> onSignOutOtherDevices deletionRejects (Some ''https://account.example'') [''DEV1''] =
     ([SetSigningOutDeviceIds (Append [''DEV1'']),
       CreateOidcLogoutDialog (Some ''DEV1'') ''https://account.example'',
       LoggerError ''Error deleting OIDC-aware sessions'',
       SetSigningOutDeviceIds (Remove [''DEV1''])], Resolves ())
   \<and> set [''DEV1'']
       \<inter> set (signingOutAfter
                (fst (onSignOutOtherDevices deletionRejects (Some ''https://account.example'') [''DEV1'']))
                [''DEV9'']) = {}"
proof -
  have two: "[''DEV1'', ''DEV2''] \<noteq> []" and one: "[''DEV1''] \<noteq> []"
    by simp_all
  have reports_false:
    "(truthyUrl None = None
        \<and> questionDialog deletionFails (length [''DEV1'', ''DEV2'']) = Resolves (Some True)
        \<and> truthy (Some True)
        \<and> returned (deleteDevices deletionFails [''DEV1'', ''DEV2'']) \<noteq> NeverSettles
        \<and> reported (deleteDevices deletionFails [''DEV1'', ''DEV2'']) = Some False)
     \<or> (truthyUrl None = Some ''https://account.example'' \<and> length [''DEV1'', ''DEV2''] = 1
        \<and> oidcLogoutDialog deletionFails (firstDeviceId [''DEV1'', ''DEV2'']) ''https://account.example''
            = Rejects)"
    by (simp add: deletionFails_def cooperative_def)
  have dialog_throws:
    "(truthyUrl (Some ''https://account.example'') = None
        \<and> questionDialog deletionRejects (length [''DEV1'']) = Resolves (Some True)
        \<and> truthy (Some True)
        \<and> returned (deleteDevices deletionRejects [''DEV1'']) \<noteq> NeverSettles
        \<and> reported (deleteDevices deletionRejects [''DEV1'']) = Some False)
     \<or> (truthyUrl (Some ''https://account.example'') = Some ''https://account.example''
        \<and> length [''DEV1''] = 1
        \<and> oidcLogoutDialog deletionRejects (firstDeviceId [''DEV1'']) ''https://account.example''
            = Rejects)"
    by (simp add: deletionRejects_def cooperative_def)
  have traces:
    "fst (onSignOutOtherDevices deletionFails None [''DEV1'', ''DEV2'']) =
       [CreateQuestionDialog 2,
        SetSigningOutDeviceIds (Append [''DEV1'', ''DEV2'']),
        DeleteDevicesWithInteractiveAuth [''DEV1'', ''DEV2''],
        SetSigningOutDeviceIds (Remove [''DEV1'', ''DEV2''])]"
    "fst (onSignOutOtherDevices deletionRejects (Some ''https://account.example'') [''DEV1'']) =
       [SetSigningOutDeviceIds (Append [''DEV1'']),
        CreateOidcLogoutDialog (Some ''DEV1'') ''https://account.example'',
        LoggerError ''Error deleting OIDC-aware sessions'',
        SetSigningOutDeviceIds (Remove [''DEV1''])]"
    by (simp_all add: signOut_defs deletionFails_def deletionRejects_def cooperative_def)
  show ?thesis
    using failed_sign_out_drains_in_flight [OF two reports_false, where s = "[''DEV9'']"]
      failed_sign_out_drains_in_flight [OF one dialog_throws, where s = "[''DEV9'']"]
      traces
    by (simp add: prod_eq_iff)
qed

text \<open>
  C4. A non-empty request without a delegated-auth URL that the user declines (the
  question dialog answers \<^verbatim>\<open>false\<close> or nothing): the only effect is the dialog, the call
  returns, the in-flight list is what it was, the deletion API is not called and no
  update of the list is queued.
\<close>

theorem declined_confirmation_aborts:
  assumes "deviceIds \<noteq> []"
    and "truthyUrl delegatedAuthAccountUrl = None"
    and "questionDialog env (length deviceIds) = Resolves confirmed" and "\<not> truthy confirmed"
  shows "onSignOutOtherDevices env delegatedAuthAccountUrl deviceIds
           = ([CreateQuestionDialog (length deviceIds)], Resolves ())
       \<and> signingOutAfter (fst (onSignOutOtherDevices env delegatedAuthAccountUrl deviceIds)) s = s
       \<and> DeleteDevicesWithInteractiveAuth ids
           \<notin> set (fst (onSignOutOtherDevices env delegatedAuthAccountUrl deviceIds))
       \<and> SetSigningOutDeviceIds u
           \<notin> set (fst (onSignOutOtherDevices env delegatedAuthAccountUrl deviceIds))"
  using assms by (simp add: signOut_defs)

theorem declined_confirmation_aborts_witness:
  "onSignOutOtherDevices userDeclines None [''DEV1'', ''DEV2'']
     = ([CreateQuestionDialog 2], Resolves ())
   \<and> signingOutAfter (fst (onSignOutOtherDevices userDeclines None [''DEV1'', ''DEV2''])) [''DEV3'']
       = [''DEV3'']"
proof -
  have request: "[''DEV1'', ''DEV2''] \<noteq> []"
    and no_url: "truthyUrl None = None"
    and declines: "questionDialog userDeclines (length [''DEV1'', ''DEV2'']) = Resolves (Some False)"
      "\<not> truthy (Some False)"
    by (simp_all add: userDeclines_def cooperative_def)
  show ?thesis
    using declined_confirmation_aborts [OF request no_url declines, where s = "[''DEV3'']"]
    by (simp add: numeral_2_eq_2)
qed

text \<open>
  C5. A request for more than one identifier while a delegated-auth URL is present (the
  test of line 98 succeeds): the only effect is the warning of line 99 and the call
  returns. No OIDC logout dialog, no call of the deletion API, no update of the in-flight
  list, which is what it was.
\<close>

theorem multi_device_delegated_request_dropped:
  assumes "truthyUrl delegatedAuthAccountUrl \<noteq> None"
    and "1 < length deviceIds"
  shows "onSignOutOtherDevices env delegatedAuthAccountUrl deviceIds
           = ([LoggerWarn ''Unexpectedly tried to sign out multiple OIDC-aware devices.''],
              Resolves ())
       \<and> signingOutAfter (fst (onSignOutOtherDevices env delegatedAuthAccountUrl deviceIds)) s = s
       \<and> CreateOidcLogoutDialog deviceId url
           \<notin> set (fst (onSignOutOtherDevices env delegatedAuthAccountUrl deviceIds))
       \<and> DeleteDevicesWithInteractiveAuth ids
           \<notin> set (fst (onSignOutOtherDevices env delegatedAuthAccountUrl deviceIds))
       \<and> SetSigningOutDeviceIds u
           \<notin> set (fst (onSignOutOtherDevices env delegatedAuthAccountUrl deviceIds))"
  using assms by (auto simp add: signOut_defs)

theorem multi_device_delegated_request_dropped_witness:
  "onSignOutOtherDevices cooperative (Some ''https://account.example'') [''DEV1'', ''DEV2'']
     = ([LoggerWarn ''Unexpectedly tried to sign out multiple OIDC-aware devices.''], Resolves ())
   \<and> signingOutAfter
       (fst (onSignOutOtherDevices cooperative (Some ''https://account.example'') [''DEV1'', ''DEV2'']))
       [''DEV3''] = [''DEV3'']"
proof -
  have delegated: "truthyUrl (Some ''https://account.example'') \<noteq> None"
    and several: "1 < length [''DEV1'', ''DEV2'']"
    by simp_all
  show ?thesis
    using multi_device_delegated_request_dropped
      [OF delegated several, where env = cooperative and s = "[''DEV3'']"]
    by simp
qed

text \<open>
  C6. Two calls over disjoint lists of identifiers, outstanding together: take any joint
  run of their effects and any moment of it at which the second call has appended its
  identifiers and has not yet filtered them. Then every identifier of the second call is
  in the in-flight list at that moment, whatever the first call has done by then, its
  clean-up after a success or a failure included, and whatever the list held at the
  start. And the clean-up of the first call, wherever it stands in the run, leaves the
  number of copies of every identifier that is not its own as it was. The two calls are
  any two, so the same holds with the roles exchanged.
\<close>

theorem disjoint_requests_keep_their_in_flight_ids:
  assumes disj: "set idsA \<inter> set idsB = {}"
    and sched: "sched \<in> shuffles (map (Pair RequestA) (fst (onSignOutOtherDevices envA urlA idsA)))
                                    (map (Pair RequestB) (fst (onSignOutOtherDevices envB urlB idsB)))"
    and started: "(RequestB, SetSigningOutDeviceIds (Append idsB)) \<in> set (take n sched)"
    and pending: "(RequestB, SetSigningOutDeviceIds (Remove idsB)) \<notin> set (take n sched)"
  shows "set idsB \<subseteq> set (signingOutAfter (map snd (take n sched)) s)
       \<and> (\<forall>k d. k < length sched
              \<and> sched ! k = (RequestA, SetSigningOutDeviceIds (Remove idsA))
              \<and> d \<notin> set idsA
            \<longrightarrow> count_list (signingOutAfter (map snd (take (Suc k) sched)) s) d
                = count_list (signingOutAfter (map snd (take k sched)) s) d)"
proof (intro conjI allI impI subsetI)
  fix k d
  assume "k < length sched
      \<and> sched ! k = (RequestA, SetSigningOutDeviceIds (Remove idsA)) \<and> d \<notin> set idsA"
  then show "count_list (signingOutAfter (map snd (take (Suc k) sched)) s) d
      = count_list (signingOutAfter (map snd (take k sched)) s) d"
    by (simp add: take_Suc_conv_app_nth count_list_filter_other)
next
  fix d assume d: "d \<in> set idsB"
  from started obtain p q where
    split: "take n sched = p @ (RequestB, SetSigningOutDeviceIds (Append idsB)) # q"
    by (auto dest: split_list)
  have later: "\<forall>ids. SetSigningOutDeviceIds (Remove ids) \<in> set (map snd q) \<longrightarrow> d \<notin> set ids"
  proof (intro allI impI)
    fix ids assume "SetSigningOutDeviceIds (Remove ids) \<in> set (map snd q)"
    then obtain r where "(r, SetSigningOutDeviceIds (Remove ids)) \<in> set q" by auto
    then have in_take: "(r, SetSigningOutDeviceIds (Remove ids)) \<in> set (take n sched)"
      using split by simp
    then have "(r, SetSigningOutDeviceIds (Remove ids)) \<in> set sched"
      by (rule in_set_takeD)
    from removes_of_schedule [OF sched this] in_take pending
    have "ids = idsA" by auto
    with disj d show "d \<notin> set ids" by auto
  qed
  have "Suc (count_list (signingOutAfter (map snd p) s) d)
      \<le> count_list (signingOutAfter (SetSigningOutDeviceIds (Append idsB) # map snd q)
                       (signingOutAfter (map snd p) s)) d"
    using d later by (rule append_then_frame)
  then have "count_list (signingOutAfter (map snd (take n sched)) s) d \<noteq> 0"
    by (simp add: split)
  then show "d \<in> set (signingOutAfter (map snd (take n sched)) s)"
    by (simp add: count_list_0_iff)
qed

theorem disjoint_requests_keep_their_in_flight_ids_witness:
  "disjointSchedule ! 7 = (RequestA, SetSigningOutDeviceIds (Remove [''DEV1'']))
   \<and> signingOutAfter (map snd (take 7 disjointSchedule)) [] = [''DEV1'', ''DEV2'']
   \<and> signingOutAfter (map snd (take 8 disjointSchedule)) [] = [''DEV2'']"
proof -
  have disj: "set [''DEV1''] \<inter> set [''DEV2''] = {}"
    by simp
  have sched: "disjointSchedule
      \<in> shuffles (map (Pair RequestA) (fst (onSignOutOtherDevices cooperative None [''DEV1''])))
                 (map (Pair RequestB) (fst (onSignOutOtherDevices cooperative None [''DEV2''])))"
  proof -
    have "fst (onSignOutOtherDevices cooperative None [''DEV1'']) =
            [CreateQuestionDialog 1, SetSigningOutDeviceIds (Append [''DEV1'']),
             DeleteDevicesWithInteractiveAuth [''DEV1''], OnSignoutResolvedCallback,
             SetSigningOutDeviceIds (Remove [''DEV1''])]"
      and "fst (onSignOutOtherDevices cooperative None [''DEV2'']) =
            [CreateQuestionDialog 1, SetSigningOutDeviceIds (Append [''DEV2'']),
             DeleteDevicesWithInteractiveAuth [''DEV2''], OnSignoutResolvedCallback,
             SetSigningOutDeviceIds (Remove [''DEV2''])]"
      by (simp_all add: signOut_defs cooperative_def)
    then show ?thesis
      unfolding disjointSchedule_def
      by (simp only: list.map)
         (intro Cons_in_shuffles_leftI Cons_in_shuffles_rightI Nil_in_shufflesI refl)
  qed
  have started: "(RequestB, SetSigningOutDeviceIds (Append [''DEV2''])) \<in> set (take 8 disjointSchedule)"
    by (simp add: disjointSchedule_def)
  have pending: "(RequestB, SetSigningOutDeviceIds (Remove [''DEV2''])) \<notin> set (take 8 disjointSchedule)"
    by (simp add: disjointSchedule_def)
  show ?thesis
    using disjoint_requests_keep_their_in_flight_ids
      [OF disj sched started pending, where s = "[]"]
    by (simp add: disjointSchedule_def)
qed

text \<open>
  C7. A request that passes the three guards (it is not empty; under a delegated-auth URL
  it names one identifier; without one the user confirms): the effects of the call are
  the confirmation dialog (without a delegated-auth URL) or nothing (with one), then the
  append of all requested identifiers, then the first network interaction, the OIDC
  logout dialog or the deletion API. Nothing before the append is a network interaction,
  and after the append the in-flight list is the old list followed by the identifiers.
\<close>

theorem in_flight_before_network_interaction:
  assumes "deviceIds \<noteq> []"
    and "truthyUrl delegatedAuthAccountUrl \<noteq> None \<longrightarrow> length deviceIds = 1"
    and "truthyUrl delegatedAuthAccountUrl = None
         \<longrightarrow> (\<exists>confirmed. questionDialog env (length deviceIds) = Resolves confirmed
                \<and> truthy confirmed)"
  shows "\<exists>pre call post.
           fst (onSignOutOtherDevices env delegatedAuthAccountUrl deviceIds)
             = pre @ [SetSigningOutDeviceIds (Append deviceIds), call] @ post
         \<and> pre = (case truthyUrl delegatedAuthAccountUrl of
                    None \<Rightarrow> [CreateQuestionDialog (length deviceIds)]
                  | Some url \<Rightarrow> [])
         \<and> call = (case truthyUrl delegatedAuthAccountUrl of
                     None \<Rightarrow> DeleteDevicesWithInteractiveAuth deviceIds
                   | Some url \<Rightarrow> CreateOidcLogoutDialog (firstDeviceId deviceIds) url)
         \<and> (\<forall>a \<in> set pre. \<not> networkInteraction a)
         \<and> networkInteraction call
         \<and> signingOutAfter (pre @ [SetSigningOutDeviceIds (Append deviceIds)]) s = s @ deviceIds"
  using assms
  by (cases "truthyUrl delegatedAuthAccountUrl")
     (auto simp add: signOut_defs fst_await fst_catch_error)

theorem in_flight_before_network_interaction_witness:
  "(\<exists>post. fst (onSignOutOtherDevices cooperative None [''DEV1'', ''DEV2''])
       = [CreateQuestionDialog 2]
         @ [SetSigningOutDeviceIds (Append [''DEV1'', ''DEV2'']),
            DeleteDevicesWithInteractiveAuth [''DEV1'', ''DEV2'']] @ post)
   \<and> signingOutAfter
        [CreateQuestionDialog 2, SetSigningOutDeviceIds (Append [''DEV1'', ''DEV2''])] []
       = [''DEV1'', ''DEV2'']"
proof -
  have request: "[''DEV1'', ''DEV2''] \<noteq> []"
    and size_guard: "truthyUrl None \<noteq> None \<longrightarrow> length [''DEV1'', ''DEV2''] = 1"
    and confirmed: "truthyUrl None = None
      \<longrightarrow> (\<exists>confirmed. questionDialog cooperative (length [''DEV1'', ''DEV2'']) = Resolves confirmed
             \<and> truthy confirmed)"
    by (simp_all add: cooperative_def)
  show ?thesis
    using in_flight_before_network_interaction [OF request size_guard confirmed, where s = "[]"]
    by (simp add: numeral_2_eq_2)
qed

text \<open>
  C8. A call with an empty list of identifiers returns at once: it performs no effect at
  all (no log, no dialog, no deletion call, no update of the in-flight list) and its
  promise resolves.
\<close>

theorem empty_request_is_silent_no_op:
  "onSignOutOtherDevices env delegatedAuthAccountUrl [] = ([], Resolves ())"
  by (simp add: onSignOutOtherDevices_def)

text \<open>
  C9. The in-flight state is a list and keeps duplicates. Two calls that both name a
  device \<open>d\<close>, outstanding together: at a moment \<open>m\<close> of a joint run at which both have
  appended and neither has filtered, the list holds two copies of \<open>d\<close> at least. When the
  first call then runs its clean-up (effect number \<open>n\<close> of the run) while the second has
  not run its own, no identifier of the first call is left in the list, and so no copy of
  \<open>d\<close>: the filter took the second call's copy too, though that call is still pending.
  The two calls are any two: the first is the one whose clean-up comes first.
\<close>

theorem overlapping_requests_lose_the_shared_id:
  assumes shared: "d \<in> set idsA" "d \<in> set idsB"
    and sched: "sched \<in> shuffles (map (Pair RequestA) (fst (onSignOutOtherDevices envA urlA idsA)))
                                    (map (Pair RequestB) (fst (onSignOutOtherDevices envB urlB idsB)))"
    and addedA: "(RequestA, SetSigningOutDeviceIds (Append idsA)) \<in> set (take m sched)"
    and addedB: "(RequestB, SetSigningOutDeviceIds (Append idsB)) \<in> set (take m sched)"
    and pendingA: "(RequestA, SetSigningOutDeviceIds (Remove idsA)) \<notin> set (take m sched)"
    and pendingB: "(RequestB, SetSigningOutDeviceIds (Remove idsB)) \<notin> set (take (Suc n) sched)"
    and completes: "n < length sched"
      "sched ! n = (RequestA, SetSigningOutDeviceIds (Remove idsA))"
  shows "2 \<le> count_list (signingOutAfter (map snd (take m sched)) s) d
       \<and> set idsA \<inter> set (signingOutAfter (map snd (take (Suc n) sched)) s) = {}
       \<and> d \<notin> set (signingOutAfter (map snd (take (Suc n) sched)) s)"
proof (intro conjI)
  have last_step:
    "take (Suc n) sched = take n sched @ [(RequestA, SetSigningOutDeviceIds (Remove idsA))]"
    using completes by (simp add: take_Suc_conv_app_nth)
  then show gone: "set idsA \<inter> set (signingOutAfter (map snd (take (Suc n) sched)) s) = {}"
    by auto
  with shared(1) show "d \<notin> set (signingOutAfter (map snd (take (Suc n) sched)) s)"
    by auto
next
  let ?p = "take m sched"
  let ?a = "(RequestA, SetSigningOutDeviceIds (Append idsA))"
  let ?b = "(RequestB, SetSigningOutDeviceIds (Append idsB))"
  have "m \<le> n"
  proof (rule ccontr)
    assume "\<not> m \<le> n"
    with completes have "n < length ?p" and "?p ! n = (RequestA, SetSigningOutDeviceIds (Remove idsA))"
      by simp_all
    then have "(RequestA, SetSigningOutDeviceIds (Remove idsA)) \<in> set ?p"
      by (metis nth_mem)
    with pendingA show False by simp
  qed
  then have sub: "set ?p \<subseteq> set (take (Suc n) sched)"
    by (intro set_take_subset_set_take) simp
  have none: "(r, SetSigningOutDeviceIds (Remove ids)) \<notin> set ?p" for r ids
  proof
    assume mem: "(r, SetSigningOutDeviceIds (Remove ids)) \<in> set ?p"
    then have "(r, SetSigningOutDeviceIds (Remove ids)) \<in> set sched"
      by (rule in_set_takeD)
    from removes_of_schedule [OF sched this] mem pendingA pendingB sub
    show False by auto
  qed
  from addedA obtain p1 p2 where split: "?p = p1 @ ?a # p2"
    by (auto dest: split_list)
  with addedB have "?b \<in> set p1 \<or> ?b \<in> set p2" by auto
  then show "2 \<le> count_list (signingOutAfter (map snd ?p) s) d"
  proof
    assume "?b \<in> set p1"
    then obtain q1 q2 where "p1 = q1 @ ?b # q2"
      by (auto dest: split_list)
    with split have eq: "?p = q1 @ ?b # q2 @ ?a # p2" by simp
    have "\<forall>ids. SetSigningOutDeviceIds (Remove ids) \<notin> set (map snd q1 @ map snd q2 @ map snd p2)"
      using none unfolding eq by force
    with shared
    have "2 \<le> count_list (signingOutAfter
            (map snd q1 @ SetSigningOutDeviceIds (Append idsB) # map snd q2
               @ SetSigningOutDeviceIds (Append idsA) # map snd p2) s) d"
      by (intro two_appends)
    then show ?thesis by (simp add: eq)
  next
    assume "?b \<in> set p2"
    then obtain q1 q2 where "p2 = q1 @ ?b # q2"
      by (auto dest: split_list)
    with split have eq: "?p = p1 @ ?a # q1 @ ?b # q2" by simp
    have "\<forall>ids. SetSigningOutDeviceIds (Remove ids) \<notin> set (map snd p1 @ map snd q1 @ map snd q2)"
      using none unfolding eq by force
    with shared
    have "2 \<le> count_list (signingOutAfter
            (map snd p1 @ SetSigningOutDeviceIds (Append idsA) # map snd q1
               @ SetSigningOutDeviceIds (Append idsB) # map snd q2) s) d"
      by (intro two_appends)
    then show ?thesis by (simp add: eq)
  qed
qed

theorem overlapping_requests_lose_the_shared_id_witness:
  "signingOutAfter (map snd (take 5 overlappingSchedule)) [] = [''DEV1'', ''DEV2'', ''DEV2'', ''DEV3'']
   \<and> (RequestB, SetSigningOutDeviceIds (Append [''DEV2'', ''DEV3''])) \<in> set (take 8 overlappingSchedule)
   \<and> (RequestB, SetSigningOutDeviceIds (Remove [''DEV2'', ''DEV3''])) \<notin> set (take 8 overlappingSchedule)
   \<and> signingOutAfter (map snd (take 8 overlappingSchedule)) [] = [''DEV3'']"
proof -
  have shared: "''DEV2'' \<in> set [''DEV1'', ''DEV2'']" "''DEV2'' \<in> set [''DEV2'', ''DEV3'']"
    by simp_all
  have sched: "overlappingSchedule
      \<in> shuffles (map (Pair RequestA) (fst (onSignOutOtherDevices cooperative None [''DEV1'', ''DEV2''])))
                 (map (Pair RequestB) (fst (onSignOutOtherDevices cooperative None [''DEV2'', ''DEV3''])))"
  proof -
    have "fst (onSignOutOtherDevices cooperative None [''DEV1'', ''DEV2'']) =
            [CreateQuestionDialog 2, SetSigningOutDeviceIds (Append [''DEV1'', ''DEV2'']),
             DeleteDevicesWithInteractiveAuth [''DEV1'', ''DEV2''], OnSignoutResolvedCallback,
             SetSigningOutDeviceIds (Remove [''DEV1'', ''DEV2''])]"
      and "fst (onSignOutOtherDevices cooperative None [''DEV2'', ''DEV3'']) =
            [CreateQuestionDialog 2, SetSigningOutDeviceIds (Append [''DEV2'', ''DEV3'']),
             DeleteDevicesWithInteractiveAuth [''DEV2'', ''DEV3''], OnSignoutResolvedCallback,
             SetSigningOutDeviceIds (Remove [''DEV2'', ''DEV3''])]"
      by (simp_all add: signOut_defs cooperative_def)
    then show ?thesis
      unfolding overlappingSchedule_def
      by (simp only: list.map)
         (intro Cons_in_shuffles_leftI Cons_in_shuffles_rightI Nil_in_shufflesI refl)
  qed
  have addedA: "(RequestA, SetSigningOutDeviceIds (Append [''DEV1'', ''DEV2'']))
                  \<in> set (take 5 overlappingSchedule)"
    and addedB: "(RequestB, SetSigningOutDeviceIds (Append [''DEV2'', ''DEV3'']))
                  \<in> set (take 5 overlappingSchedule)"
    and pendingA: "(RequestA, SetSigningOutDeviceIds (Remove [''DEV1'', ''DEV2'']))
                  \<notin> set (take 5 overlappingSchedule)"
    and pendingB: "(RequestB, SetSigningOutDeviceIds (Remove [''DEV2'', ''DEV3'']))
                  \<notin> set (take (Suc 7) overlappingSchedule)"
    and completes: "7 < length overlappingSchedule"
      "overlappingSchedule ! 7 = (RequestA, SetSigningOutDeviceIds (Remove [''DEV1'', ''DEV2'']))"
    by (simp_all add: overlappingSchedule_def)
  show ?thesis
    using overlapping_requests_lose_the_shared_id
      [OF shared sched addedA addedB pendingA pendingB completes, where s = "[]"]
    by (simp add: overlappingSchedule_def)
qed

text \<open>
  C10. On a successful sign-out, which is when the callback is invoked: no filter of the
  in-flight list comes before the invocation of the callback; while the callback runs
  every requested identifier is in the list; and the filter of the requested identifiers
  is the one effect that can follow the callback, which it does exactly when the
  callback's promise has resolved (after a rejection the call is over and nothing is
  filtered). The callback of the tab performs the refresh of the device list first, and
  its promise ends as the refresh does, so the identifiers stay in the list for as long
  as the refresh lasts.
\<close>

theorem in_flight_until_callback_settles:
  assumes "OnSignoutResolvedCallback
             \<in> set (fst (onSignOutOtherDevices env delegatedAuthAccountUrl deviceIds))"
  shows "(\<exists>pre. fst (onSignOutOtherDevices env delegatedAuthAccountUrl deviceIds)
                  = pre @ OnSignoutResolvedCallback
                      # (if onSignoutResolvedCallback env = Resolves ()
                         then [SetSigningOutDeviceIds (Remove deviceIds)] else [])
              \<and> (\<forall>ids. SetSigningOutDeviceIds (Remove ids) \<notin> set pre)
              \<and> set deviceIds \<subseteq> set (signingOutAfter (pre @ [OnSignoutResolvedCallback]) s))
       \<and> tabOnSignoutResolvedCallback refreshDevices
           = (RefreshDevices # (if refreshDevices = Resolves () then [SetSelectedDeviceIds []] else []),
              refreshDevices)"
proof
  show "tabOnSignoutResolvedCallback refreshDevices
           = (RefreshDevices # (if refreshDevices = Resolves () then [SetSelectedDeviceIds []] else []),
              refreshDevices)"
    by (cases refreshDevices) (simp_all add: tabOnSignoutResolvedCallback_def)
next
  let ?t = "fst (onSignOutOtherDevices env delegatedAuthAccountUrl deviceIds)"
  let ?tail = "OnSignoutResolvedCallback
                 # (if onSignoutResolvedCallback env = Resolves ()
                    then [SetSigningOutDeviceIds (Remove deviceIds)] else [])"
  from assms have nonempty: "deviceIds \<noteq> []"
    by (simp add: callback_invoked_iff)
  show "\<exists>pre. ?t = pre @ ?tail
           \<and> (\<forall>ids. SetSigningOutDeviceIds (Remove ids) \<notin> set pre)
           \<and> set deviceIds \<subseteq> set (signingOutAfter (pre @ [OnSignoutResolvedCallback]) s)"
  proof (cases "truthyUrl delegatedAuthAccountUrl")
    case None
    with assms obtain confirmed where
      "questionDialog env (length deviceIds) = Resolves confirmed" "truthy confirmed"
      "returned (deleteDevices env deviceIds) = Resolves ()"
      "reported (deleteDevices env deviceIds) = Some True"
      by (auto simp add: callback_invoked_iff)
    with None nonempty have
      "?t = [CreateQuestionDialog (length deviceIds), SetSigningOutDeviceIds (Append deviceIds),
             DeleteDevicesWithInteractiveAuth deviceIds] @ ?tail"
      by (cases "onSignoutResolvedCallback env") (simp_all add: signOut_defs)
    then show ?thesis
      by (intro exI [of _ "[CreateQuestionDialog (length deviceIds),
            SetSigningOutDeviceIds (Append deviceIds), DeleteDevicesWithInteractiveAuth deviceIds]"])
         simp
  next
    case (Some url)
    with assms obtain confirmed where
      "length deviceIds = 1"
      "oidcLogoutDialog env (firstDeviceId deviceIds) url = Resolves confirmed" "truthy confirmed"
      by (auto simp add: callback_invoked_iff)
    with Some nonempty have
      "?t = [SetSigningOutDeviceIds (Append deviceIds),
             CreateOidcLogoutDialog (firstDeviceId deviceIds) url] @ ?tail"
      by (cases "onSignoutResolvedCallback env") (simp_all add: signOut_defs)
    then show ?thesis
      by (intro exI [of _ "[SetSigningOutDeviceIds (Append deviceIds),
            CreateOidcLogoutDialog (firstDeviceId deviceIds) url]"])
         simp
  qed
qed

theorem in_flight_until_callback_settles_witness:
  "(\<exists>pre. fst (onSignOutOtherDevices cooperative None [''DEV1''])
            = pre @ [OnSignoutResolvedCallback, SetSigningOutDeviceIds (Remove [''DEV1''])]
        \<and> ''DEV1'' \<in> set (signingOutAfter (pre @ [OnSignoutResolvedCallback]) []))
   \<and> (\<exists>pre. fst (onSignOutOtherDevices callbackRejects None [''DEV1''])
            = pre @ [OnSignoutResolvedCallback]
        \<and> ''DEV1'' \<in> set (signingOutAfter (pre @ [OnSignoutResolvedCallback]) []))"
proof -
  have invoked: "OnSignoutResolvedCallback
        \<in> set (fst (onSignOutOtherDevices cooperative None [''DEV1'']))"
    and invoked': "OnSignoutResolvedCallback
        \<in> set (fst (onSignOutOtherDevices callbackRejects None [''DEV1'']))"
    by (simp_all add: signOut_defs callbackRejects_def cooperative_def)
  have outcomes: "onSignoutResolvedCallback cooperative = Resolves ()"
    "onSignoutResolvedCallback callbackRejects \<noteq> Resolves ()"
    by (simp_all add: callbackRejects_def cooperative_def)
  have "\<exists>pre. fst (onSignOutOtherDevices cooperative None [''DEV1''])
            = pre @ [OnSignoutResolvedCallback, SetSigningOutDeviceIds (Remove [''DEV1''])]
        \<and> ''DEV1'' \<in> set (signingOutAfter (pre @ [OnSignoutResolvedCallback]) [])"
    using in_flight_until_callback_settles
        [OF invoked, where s = "[]" and refreshDevices = "Resolves ()"]
      outcomes(1)
    by auto
  moreover
  have "\<exists>pre. fst (onSignOutOtherDevices callbackRejects None [''DEV1''])
            = pre @ [OnSignoutResolvedCallback]
        \<and> ''DEV1'' \<in> set (signingOutAfter (pre @ [OnSignoutResolvedCallback]) [])"
    using in_flight_until_callback_settles
        [OF invoked', where s = "[]" and refreshDevices = "Resolves ()"]
      outcomes(2)
    by auto
  ultimately show ?thesis by blast
qed

end
